theory Spec2Isabelle
  imports Main "HOL-Library.Finite_Map"
begin

section \<open>JavaScript values and objects\<close>

text \<open>
  The component of \<^verbatim>\<open>src/components/MultiversalAppBootstrap.tsx\<close> only reads
  properties, tests truthiness, compares against the number 404 and spreads objects.
  A value is therefore a primitive or an object; an object (a plain object, a function,
  a class instance) is represented by its own enumerable string-keyed properties, a
  finite map. Numbers are the integers, which covers HTTP status codes. Property order
  is not modelled: nothing below depends on it.
\<close>

datatype jsval =
    JUndefined
  | JNull
  | JBool bool
  | JNum int
  | JStr string
  | JObj "(string, jsval) fmap"

type_synonym jsobj = "(string, jsval) fmap"

datatype error = TypeError | Thrown jsval

text \<open>Truthiness, as \<^verbatim>\<open>||\<close> and \<^verbatim>\<open>if\<close> test it.\<close>

fun truthy :: "jsval \<Rightarrow> bool" where
  "truthy JUndefined = False"
| "truthy JNull = False"
| "truthy (JBool b) = b"
| "truthy (JNum n) = (n \<noteq> 0)"
| "truthy (JStr s) = (s \<noteq> [])"
| "truthy (JObj m) = True"

text \<open>
  Reading a property of an object that does not have it gives \<^verbatim>\<open>undefined\<close>; this is
  what the destructuring \<^verbatim>\<open>const { Component, err, pageProps, router, ...rest } = props\<close>
  does on the props object.
\<close>

definition field :: "jsobj \<Rightarrow> string \<Rightarrow> jsval" where
  "field m k = (case fmlookup m k of None \<Rightarrow> JUndefined | Some v \<Rightarrow> v)"

text \<open>
  \<^verbatim>\<open>v.k\<close> on any value: a TypeError on \<^verbatim>\<open>undefined\<close> and \<^verbatim>\<open>null\<close>, the field of an
  object, and \<^verbatim>\<open>undefined\<close> on a boolean, number or string (the names read by the
  component, \<^verbatim>\<open>isReadyToRender\<close>, \<^verbatim>\<open>statusCode\<close>, \<^verbatim>\<open>customer\<close>, \<^verbatim>\<open>defaultLocales\<close>
  and \<^verbatim>\<open>lang\<close>, are not properties of the primitive wrappers).
\<close>

fun getProp :: "jsval \<Rightarrow> string \<Rightarrow> error + jsval" where
  "getProp JUndefined k = Inl TypeError"
| "getProp JNull k = Inl TypeError"
| "getProp (JObj m) k = Inr (field m k)"
| "getProp (JBool b) k = Inr JUndefined"
| "getProp (JNum n) k = Inr JUndefined"
| "getProp (JStr s) k = Inr JUndefined"

text \<open>Decimal rendering of an index, for the keys of a spread string.\<close>

fun string_of_nat :: "nat \<Rightarrow> string" where
  "string_of_nat n =
     (if n < 10 then [char_of (48 + n)]
      else string_of_nat (n div 10) @ [char_of (48 + n mod 10)])"

text \<open>
  The own enumerable properties that an object spread \<^verbatim>\<open>{...v}\<close> copies: those of an
  object, none for \<^verbatim>\<open>undefined\<close>, \<^verbatim>\<open>null\<close>, booleans and numbers, and the characters
  of a string under their indices.
\<close>

fun ownProps :: "jsval \<Rightarrow> jsobj" where
  "ownProps (JObj m) = m"
| "ownProps (JStr s) =
     fmap_of_list (zip (map string_of_nat [0..<length s]) (map (\<lambda>c. JStr [c]) s))"
| "ownProps JUndefined = fmempty"
| "ownProps JNull = fmempty"
| "ownProps (JBool b) = fmempty"
| "ownProps (JNum n) = fmempty"

section \<open>Collaborators and observable effects\<close>

text \<open>
  The imported functions are not part of the component: they are parameters of the
  model. Each call either returns a value or throws. \<^verbatim>\<open>isBrowser()\<close> is
  \<^verbatim>\<open>typeof window !== 'undefined'\<close>, a constant of the execution context.
\<close>

record env =
  isBrowser :: bool
  i18nextLocize :: "jsval \<Rightarrow> jsval \<Rightarrow> error + jsval"
  initCustomerTheme :: "jsval \<Rightarrow> error + jsval"
  isRunningInIframe :: "error + jsval"
  getIframeReferrer :: "error + jsval"
  newUniversalCookiesManager :: "error + jsval"
  getUserData :: "jsval \<Rightarrow> error + jsval"

datatype severity = Fatal | Error | Warning | Log | Info | Debug | Critical

text \<open>Every call that leaves the component is recorded, in program order.\<close>

datatype event =
    SentryAddBreadcrumb string string severity
  | ConsoleDebug string jsval
  | ConsoleInfo string
  | CallI18nextLocize jsval jsval
  | CallInitCustomerTheme jsval
  | CallIsRunningInIframe
  | CallGetIframeReferrer
  | NewUniversalCookiesManager
  | CallGetUserData jsval

text \<open>What the component returns: \<^verbatim>\<open>null\<close> is \<open>None\<close>, a JSX element is its renderer and props.\<close>

datatype element = BrowserPageBootstrap jsobj | PageBootstrap jsobj

text \<open>
  A computation takes the trace so far and gives a value or a thrown error, with the
  extended trace. Sequencing stops at the first throw: there is no handler.
\<close>

type_synonym 'a run = "event list \<Rightarrow> (error + 'a) \<times> event list"

definition run_ret :: "'a \<Rightarrow> 'a run" where
  "run_ret x = (\<lambda>t. (Inr x, t))"

definition run_lift :: "error + 'a \<Rightarrow> 'a run" where
  "run_lift r = (\<lambda>t. (r, t))"

definition run_emit :: "event \<Rightarrow> unit run" where
  "run_emit ev = (\<lambda>t. (Inr (), t @ [ev]))"

definition run_call :: "event \<Rightarrow> error + 'a \<Rightarrow> 'a run" where
  "run_call ev r = (\<lambda>t. (r, t @ [ev]))"

definition run_bind :: "'a run \<Rightarrow> ('a \<Rightarrow> 'b run) \<Rightarrow> 'b run" where
  "run_bind m f = (\<lambda>t. case m t of (Inl e, t') \<Rightarrow> (Inl e, t') | (Inr x, t') \<Rightarrow> f x t')"

section \<open>The component\<close>

definition fileLabel :: string where
  "fileLabel = ''components/MultiversalAppBootstrap''"

text \<open>
  \<^verbatim>\<open>pageProps.isReadyToRender || pageProps.statusCode === 404\<close>: the status code is read
  only when the flag is falsy.
\<close>

definition readyToRender :: "jsval \<Rightarrow> error + bool" where
  "readyToRender pageProps =
     (case getProp pageProps ''isReadyToRender'' of
        Inl e \<Rightarrow> Inl e
      | Inr flag \<Rightarrow>
          if truthy flag then Inr True
          else (case getProp pageProps ''statusCode'' of
                  Inl e \<Rightarrow> Inl e
                | Inr code \<Rightarrow> Inr (code = JNum 404)))"

text \<open>
  \<^verbatim>\<open>{ ...pageProps, Component, err, i18nextInstance, router, theme, ...rest }\<close>:
  later entries of an object literal replace earlier ones.
\<close>

definition pageBootstrapProps ::
  "jsval \<Rightarrow> jsval \<Rightarrow> jsval \<Rightarrow> jsval \<Rightarrow> jsval \<Rightarrow> jsval \<Rightarrow> jsobj \<Rightarrow> jsobj" where
  "pageBootstrapProps pageProps Component err i18nextInstance router theme rest =
     fmadd
       (fmupd ''theme'' theme
         (fmupd ''router'' router
           (fmupd ''i18nextInstance'' i18nextInstance
             (fmupd ''err'' err
               (fmupd ''Component'' Component
                 (ownProps pageProps))))))
       rest"

text \<open>\<^verbatim>\<open>{ ...pageBootstrapProps, isInIframe, iframeReferrer, cookiesManager, userSession }\<close>\<close>

definition browserPageBootstrapProps ::
  "jsobj \<Rightarrow> jsval \<Rightarrow> jsval \<Rightarrow> jsval \<Rightarrow> jsval \<Rightarrow> jsobj" where
  "browserPageBootstrapProps pbp isInIframe iframeReferrer cookiesManager userSession =
     fmupd ''userSession'' userSession
       (fmupd ''cookiesManager'' cookiesManager
         (fmupd ''iframeReferrer'' iframeReferrer
           (fmupd ''isInIframe'' isInIframe pbp)))"

text \<open>The \<^verbatim>\<open>...rest\<close> of the destructuring: every key but the four named ones.\<close>

definition restProps :: "jsobj \<Rightarrow> jsobj" where
  "restProps props = fmdrop_fset {|''Component'', ''err'', ''pageProps'', ''router''|} props"

definition MultiversalAppBootstrap :: "env \<Rightarrow> jsobj \<Rightarrow> element option run" where
  "MultiversalAppBootstrap env props =
     (let Component = field props ''Component'';
          err = field props ''err'';
          pageProps = field props ''pageProps'';
          router = field props ''router'';
          rest = restProps props
      in
      run_bind (run_emit (SentryAddBreadcrumb fileLabel (''Rendering '' @ fileLabel) Debug)) (\<lambda>_.
      run_bind (if isBrowser env
                then run_emit (ConsoleDebug ''MultiversalAppBootstrap.props'' (JObj props))
                else run_ret ()) (\<lambda>_.
      run_bind (run_lift (readyToRender pageProps)) (\<lambda>ready.
      if ready then
        run_bind (run_emit (ConsoleInfo ''MultiversalAppBootstrap - App is ready, rendering...'')) (\<lambda>_.
        run_bind (run_lift (getProp pageProps ''customer'')) (\<lambda>customer.
        run_bind (run_lift (getProp pageProps ''defaultLocales'')) (\<lambda>defaultLocales.
        run_bind (run_lift (getProp pageProps ''lang'')) (\<lambda>lang.
        run_bind (run_call (CallI18nextLocize lang defaultLocales)
                    (i18nextLocize env lang defaultLocales)) (\<lambda>i18nextInstance.
        run_bind (run_call (CallInitCustomerTheme customer)
                    (initCustomerTheme env customer)) (\<lambda>theme.
        let pbp = pageBootstrapProps pageProps Component err i18nextInstance router theme rest
        in
        if isBrowser env then
          run_bind (run_call CallIsRunningInIframe (isRunningInIframe env)) (\<lambda>isInIframe.
          run_bind (run_call CallGetIframeReferrer (getIframeReferrer env)) (\<lambda>iframeReferrer.
          run_bind (run_call NewUniversalCookiesManager
                      (newUniversalCookiesManager env)) (\<lambda>cookiesManager.
          run_bind (run_call (CallGetUserData cookiesManager)
                      (getUserData env cookiesManager)) (\<lambda>userSession.
          run_ret (Some (BrowserPageBootstrap
            (browserPageBootstrapProps pbp isInIframe iframeReferrer
               cookiesManager userSession)))))))
        else
          run_ret (Some (PageBootstrap pbp))))))))
      else
        run_bind (run_emit (ConsoleInfo
          ''MultiversalAppBootstrap - App is not ready yet, waiting for isReadyToRender'')) (\<lambda>_.
        run_ret None)))))"

text \<open>One render pass, from the empty trace: the returned value or error, and the trace.\<close>

definition render :: "env \<Rightarrow> jsobj \<Rightarrow> (error + element option) \<times> event list" where
  "render env props = MultiversalAppBootstrap env props []"

section \<open>Observing a render pass\<close>

fun elementProps :: "element \<Rightarrow> jsobj" where
  "elementProps (BrowserPageBootstrap p) = p"
| "elementProps (PageBootstrap p) = p"

text \<open>The props handed to the selected renderer, when one is selected.\<close>

definition delegatedProps :: "env \<Rightarrow> jsobj \<Rightarrow> jsobj option" where
  "delegatedProps env props =
     (case fst (render env props) of Inr (Some el) \<Rightarrow> Some (elementProps el) | _ \<Rightarrow> None)"

definition delegatedField :: "env \<Rightarrow> jsobj \<Rightarrow> string \<Rightarrow> jsval option" where
  "delegatedField env props k =
     (case delegatedProps env props of None \<Rightarrow> None | Some d \<Rightarrow> fmlookup d k)"

fun isBreadcrumb :: "event \<Rightarrow> bool" where
  "isBreadcrumb (SentryAddBreadcrumb c m l) = True"
| "isBreadcrumb _ = False"

fun isConsoleDebug :: "event \<Rightarrow> bool" where
  "isConsoleDebug (ConsoleDebug l v) = True"
| "isConsoleDebug _ = False"

fun isConsoleInfo :: "event \<Rightarrow> bool" where
  "isConsoleInfo (ConsoleInfo l) = True"
| "isConsoleInfo _ = False"

text \<open>Calls of the resolvers, the iframe utilities and the session manager.\<close>

fun isCollaboratorCall :: "event \<Rightarrow> bool" where
  "isCollaboratorCall (SentryAddBreadcrumb c m l) = False"
| "isCollaboratorCall (ConsoleDebug l v) = False"
| "isCollaboratorCall (ConsoleInfo l) = False"
| "isCollaboratorCall _ = True"

abbreviation breadcrumb :: event where
  "breadcrumb \<equiv> SentryAddBreadcrumb fileLabel (''Rendering '' @ fileLabel) Debug"

abbreviation infoReady :: event where
  "infoReady \<equiv> ConsoleInfo ''MultiversalAppBootstrap - App is ready, rendering...''"

abbreviation infoWaiting :: event where
  "infoWaiting \<equiv> ConsoleInfo
     ''MultiversalAppBootstrap - App is not ready yet, waiting for isReadyToRender''"

text \<open>The events that precede the readiness test.\<close>

definition prologue :: "env \<Rightarrow> jsobj \<Rightarrow> event list" where
  "prologue env props =
     breadcrumb #
     (if isBrowser env then [ConsoleDebug ''MultiversalAppBootstrap.props'' (JObj props)] else [])"

section \<open>Concrete environments and props\<close>

definition sample_env :: "bool \<Rightarrow> env" where
  "sample_env b =
     \<lparr> isBrowser = b,
       i18nextLocize = (\<lambda>lang dl. Inr (JObj (fmap_of_list [(''language'', lang), (''store'', dl)]))),
       initCustomerTheme = (\<lambda>c. Inr (JObj (fmap_of_list [(''customer'', c), (''primaryColor'', JStr ''blue'')]))),
       isRunningInIframe = Inr (JBool False),
       getIframeReferrer = Inr (JStr ''https://host.example''),
       newUniversalCookiesManager = Inr (JObj (fmap_of_list [(''cookies'', JStr ''jar'')])),
       getUserData = (\<lambda>m. Inr (JObj (fmap_of_list [(''id'', JStr ''u-1'')]))) \<rparr>"

text \<open>A browser whose cookie store cannot be read.\<close>

definition broken_session_env :: env where
  "broken_session_env = (sample_env True)\<lparr> getUserData := (\<lambda>m. Inl (Thrown (JStr ''cookies disabled''))) \<rparr>"

text \<open>A server whose translation backend is down.\<close>

definition broken_i18n_env :: env where
  "broken_i18n_env = (sample_env False)\<lparr> i18nextLocize := (\<lambda>l d. Inl (Thrown (JStr ''locize unreachable''))) \<rparr>"

text \<open>A browser whose translation backend only knows French.\<close>

definition quiet_env :: env where
  "quiet_env = (sample_env True)\<lparr>
      i18nextLocize := (\<lambda>l d. if l = JStr ''fr''
         then Inr (JObj (fmap_of_list [(''language'', l), (''store'', d)]))
         else Inl (Thrown (JStr ''unsupported language''))) \<rparr>"

definition sample_pageProps :: jsobj where
  "sample_pageProps =
     fmap_of_list [(''isReadyToRender'', JBool True), (''lang'', JStr ''fr''),
                   (''customer'', JStr ''customer1''), (''defaultLocales'', JObj fmempty)]"

definition sample_props :: jsobj where
  "sample_props =
     fmap_of_list [(''Component'', JStr ''Page''), (''pageProps'', JObj sample_pageProps),
                   (''router'', JObj fmempty), (''__N_SSG'', JBool True)]"

definition waiting_pageProps :: jsobj where
  "waiting_pageProps = fmap_of_list [(''isReadyToRender'', JBool False), (''statusCode'', JNum 200)]"

definition waiting_props :: jsobj where
  "waiting_props = fmap_of_list [(''pageProps'', JObj waiting_pageProps), (''__N_SSG'', JBool True)]"

text \<open>Props whose passthrough fields reuse names the component computes.\<close>

definition override_props :: jsobj where
  "override_props =
     fmap_of_list [(''pageProps'', JObj sample_pageProps), (''theme'', JStr ''mine''),
                   (''isInIframe'', JStr ''yes'')]"

section \<open>The paths of a render pass\<close>

lemmas run_defs = render_def MultiversalAppBootstrap_def run_bind_def run_emit_def
  run_ret_def run_lift_def run_call_def Let_def

lemmas sample_defs = sample_env_def broken_session_env_def broken_i18n_env_def quiet_env_def
  sample_pageProps_def sample_props_def waiting_pageProps_def waiting_props_def
  override_props_def

lemma readyToRender_obj:
  "readyToRender (JObj pp) =
     Inr (truthy (field pp ''isReadyToRender'') \<or> field pp ''statusCode'' = JNum 404)"
  by (simp add: readyToRender_def)

text \<open>Only an object passes the readiness test, so only an object is ever spread.\<close>

lemma readyToRender_True_obj:
  "readyToRender v = Inr True \<Longrightarrow> \<exists>pp. v = JObj pp"
  by (cases v) (simp_all add: readyToRender_def)

lemma render_waiting:
  "readyToRender (field props ''pageProps'') = Inr False \<Longrightarrow>
   render env props = (Inr None, prologue env props @ [infoWaiting])"
  by (simp add: run_defs prologue_def)

lemma render_gate_throws:
  "readyToRender (field props ''pageProps'') = Inl e \<Longrightarrow>
   render env props = (Inl e, prologue env props)"
  by (simp add: run_defs prologue_def)

lemma render_ready:
  assumes "field props ''pageProps'' = JObj pp"
    and "readyToRender (JObj pp) = Inr True"
  shows "render env props =
    (let lang = field pp ''lang''; defaultLocales = field pp ''defaultLocales'';
         customer = field pp ''customer'';
         t1 = prologue env props @ [infoReady, CallI18nextLocize lang defaultLocales];
         t2 = t1 @ [CallInitCustomerTheme customer]
     in case i18nextLocize env lang defaultLocales of
          Inl e \<Rightarrow> (Inl e, t1)
        | Inr i \<Rightarrow>
      (case initCustomerTheme env customer of
          Inl e \<Rightarrow> (Inl e, t2)
        | Inr th \<Rightarrow>
       let pbp = pageBootstrapProps (JObj pp) (field props ''Component'') (field props ''err'') i
                   (field props ''router'') th (restProps props)
       in
       if isBrowser env then
         (case isRunningInIframe env of
            Inl e \<Rightarrow> (Inl e, t2 @ [CallIsRunningInIframe])
          | Inr fr \<Rightarrow>
          (case getIframeReferrer env of
            Inl e \<Rightarrow> (Inl e, t2 @ [CallIsRunningInIframe, CallGetIframeReferrer])
          | Inr rf \<Rightarrow>
          (case newUniversalCookiesManager env of
            Inl e \<Rightarrow> (Inl e, t2 @ [CallIsRunningInIframe, CallGetIframeReferrer,
                                  NewUniversalCookiesManager])
          | Inr cm \<Rightarrow>
          (case getUserData env cm of
            Inl e \<Rightarrow> (Inl e, t2 @ [CallIsRunningInIframe, CallGetIframeReferrer,
                                  NewUniversalCookiesManager, CallGetUserData cm])
          | Inr us \<Rightarrow>
             (Inr (Some (BrowserPageBootstrap (browserPageBootstrapProps pbp fr rf cm us))),
              t2 @ [CallIsRunningInIframe, CallGetIframeReferrer,
                    NewUniversalCookiesManager, CallGetUserData cm])))))
       else (Inr (Some (PageBootstrap pbp)), t2)))"
  using assms
  apply (simp add: run_defs prologue_def del: fmadd_fmupd)
  apply (simp split: sum.split)
  done

lemma render_universal:
  assumes "field props ''pageProps'' = JObj pp"
    and "readyToRender (JObj pp) = Inr True"
    and "\<not> isBrowser env"
    and "i18nextLocize env (field pp ''lang'') (field pp ''defaultLocales'') = Inr i"
    and "initCustomerTheme env (field pp ''customer'') = Inr th"
  shows "render env props =
     (Inr (Some (PageBootstrap
        (pageBootstrapProps (JObj pp) (field props ''Component'') (field props ''err'') i
           (field props ''router'') th (restProps props)))),
      [breadcrumb, infoReady,
       CallI18nextLocize (field pp ''lang'') (field pp ''defaultLocales''),
       CallInitCustomerTheme (field pp ''customer'')])"
  using render_ready [OF assms(1) assms(2), of env] assms(3) assms(4) assms(5)
  by (simp add: prologue_def Let_def)

lemma render_browser:
  assumes "field props ''pageProps'' = JObj pp"
    and "readyToRender (JObj pp) = Inr True"
    and "isBrowser env"
    and "i18nextLocize env (field pp ''lang'') (field pp ''defaultLocales'') = Inr i"
    and "initCustomerTheme env (field pp ''customer'') = Inr th"
    and "isRunningInIframe env = Inr fr"
    and "getIframeReferrer env = Inr rf"
    and "newUniversalCookiesManager env = Inr cm"
    and "getUserData env cm = Inr us"
  shows "render env props =
     (Inr (Some (BrowserPageBootstrap
        (browserPageBootstrapProps
          (pageBootstrapProps (JObj pp) (field props ''Component'') (field props ''err'') i
             (field props ''router'') th (restProps props))
          fr rf cm us))),
      [breadcrumb, ConsoleDebug ''MultiversalAppBootstrap.props'' (JObj props), infoReady,
       CallI18nextLocize (field pp ''lang'') (field pp ''defaultLocales''),
       CallInitCustomerTheme (field pp ''customer''),
       CallIsRunningInIframe, CallGetIframeReferrer, NewUniversalCookiesManager,
       CallGetUserData cm])"
  using render_ready [OF assms(1) assms(2), of env] assms(3-9)
  by (simp add: prologue_def Let_def)

text \<open>Lookup in the merged props follows the order of the object literal, last entry first.\<close>

lemma pageBootstrapProps_lookup:
  "fmlookup (pageBootstrapProps pageProps Component err i18nextInstance router theme rest) k =
     (case fmlookup rest k of
        Some v \<Rightarrow> Some v
      | None \<Rightarrow>
          if k = ''theme'' then Some theme
          else if k = ''router'' then Some router
          else if k = ''i18nextInstance'' then Some i18nextInstance
          else if k = ''err'' then Some err
          else if k = ''Component'' then Some Component
          else fmlookup (ownProps pageProps) k)"
  by (simp add: pageBootstrapProps_def fmlookup_dom_iff split: option.split)

lemma browserPageBootstrapProps_lookup:
  "fmlookup (browserPageBootstrapProps pbp isInIframe iframeReferrer cookiesManager userSession) k =
     (if k = ''userSession'' then Some userSession
      else if k = ''cookiesManager'' then Some cookiesManager
      else if k = ''iframeReferrer'' then Some iframeReferrer
      else if k = ''isInIframe'' then Some isInIframe
      else fmlookup pbp k)"
  by (simp add: browserPageBootstrapProps_def)

lemma restProps_lookup:
  "fmlookup (restProps props) k =
     (if k \<in> {''Component'', ''err'', ''pageProps'', ''router''} then None else fmlookup props k)"
  by (simp add: restProps_def)

text \<open>
  A render pass that returns has seen every collaborator on its path return; the returned
  element is then the one built from their results.
\<close>

lemma render_returns:
  assumes "field props ''pageProps'' = JObj pp"
    and "readyToRender (JObj pp) = Inr True"
    and "fst (render env props) = Inr r"
  shows "\<exists>i th. i18nextLocize env (field pp ''lang'') (field pp ''defaultLocales'') = Inr i
      \<and> initCustomerTheme env (field pp ''customer'') = Inr th
      \<and> (if isBrowser env
          then \<exists>fr rf cm us. isRunningInIframe env = Inr fr \<and> getIframeReferrer env = Inr rf
                 \<and> newUniversalCookiesManager env = Inr cm \<and> getUserData env cm = Inr us
                 \<and> r = Some (BrowserPageBootstrap
                     (browserPageBootstrapProps
                       (pageBootstrapProps (JObj pp) (field props ''Component'')
                          (field props ''err'') i (field props ''router'') th (restProps props))
                       fr rf cm us))
          else r = Some (PageBootstrap
                     (pageBootstrapProps (JObj pp) (field props ''Component'')
                        (field props ''err'') i (field props ''router'') th (restProps props))))"
proof -
  note rr = render_ready [OF assms(1) assms(2), of env]
  obtain i where i: "i18nextLocize env (field pp ''lang'') (field pp ''defaultLocales'') = Inr i"
    using rr assms(3)
    by (cases "i18nextLocize env (field pp ''lang'') (field pp ''defaultLocales'')")
       (simp_all add: Let_def)
  obtain th where th: "initCustomerTheme env (field pp ''customer'') = Inr th"
    using rr assms(3) i
    by (cases "initCustomerTheme env (field pp ''customer'')") (simp_all add: Let_def)
  show ?thesis
  proof (cases "isBrowser env")
    case False
    with rr assms(3) i th show ?thesis by (simp add: Let_def)
  next
    case True
    obtain fr where fr: "isRunningInIframe env = Inr fr"
      using rr assms(3) i th True
      by (cases "isRunningInIframe env") (simp_all add: Let_def)
    obtain rf where rf: "getIframeReferrer env = Inr rf"
      using rr assms(3) i th True fr
      by (cases "getIframeReferrer env") (simp_all add: Let_def)
    obtain cm where cm: "newUniversalCookiesManager env = Inr cm"
      using rr assms(3) i th True fr rf
      by (cases "newUniversalCookiesManager env") (simp_all add: Let_def)
    obtain us where us: "getUserData env cm = Inr us"
      using rr assms(3) i th True fr rf cm
      by (cases "getUserData env cm") (simp_all add: Let_def)
    from rr assms(3) i th True fr rf cm us show ?thesis by (simp add: Let_def)
  qed
qed

text \<open>Both resolvers are reached on the ready path, in this order.\<close>

lemma ready_trace:
  assumes "field props ''pageProps'' = JObj pp"
    and "readyToRender (JObj pp) = Inr True"
  shows "CallI18nextLocize (field pp ''lang'') (field pp ''defaultLocales'')
           \<in> set (snd (render env props))"
    and "i18nextLocize env (field pp ''lang'') (field pp ''defaultLocales'') = Inr i
         \<Longrightarrow> CallInitCustomerTheme (field pp ''customer'') \<in> set (snd (render env props))"
  using render_ready [OF assms(1) assms(2), of env]
  by (simp_all add: Let_def split: sum.split)

text \<open>Outside the four names the browser branch sets, a delegated field is a field of the merged props.\<close>

lemma delegated_lookup:
  assumes "field props ''pageProps'' = JObj pp"
    and "readyToRender (JObj pp) = Inr True"
    and "i18nextLocize env (field pp ''lang'') (field pp ''defaultLocales'') = Inr i"
    and "initCustomerTheme env (field pp ''customer'') = Inr th"
    and "delegatedProps env props \<noteq> None"
    and "isBrowser env \<longrightarrow> k \<notin> {''isInIframe'', ''iframeReferrer'', ''cookiesManager'', ''userSession''}"
  shows "delegatedField env props k =
           fmlookup (pageBootstrapProps (JObj pp) (field props ''Component'')
                       (field props ''err'') i (field props ''router'') th (restProps props)) k"
proof -
  from assms(5) obtain r where r: "fst (render env props) = Inr r"
    by (auto simp: delegatedProps_def split: sum.splits)
  from render_returns [OF assms(1) assms(2) r] assms(3) assms(4) assms(6) r
  show ?thesis
    by (auto simp: delegatedField_def delegatedProps_def browserPageBootstrapProps_lookup
          split: if_splits)
qed

text \<open>The breadcrumb and console lines of a pass that is ready, whatever the collaborators do.\<close>

lemma ready_trace_filters:
  assumes "field props ''pageProps'' = JObj pp"
    and "readyToRender (JObj pp) = Inr True"
  shows "filter isBreadcrumb (snd (render env props)) = [breadcrumb]"
    and "filter isConsoleDebug (snd (render env props)) =
           (if isBrowser env then [ConsoleDebug ''MultiversalAppBootstrap.props'' (JObj props)]
            else [])"
    and "filter isConsoleInfo (snd (render env props)) = [infoReady]"
  using render_ready [OF assms(1) assms(2), of env]
  by (simp_all add: Let_def prologue_def split: sum.split)

section \<open>The concrete runs\<close>

lemma sample_gate:
  "field sample_props ''pageProps'' = JObj sample_pageProps"
  "readyToRender (JObj sample_pageProps) = Inr True"
  "field override_props ''pageProps'' = JObj sample_pageProps"
  by (simp_all add: sample_defs field_def readyToRender_obj)

lemma sample_fields:
  "field sample_pageProps ''isReadyToRender'' = JBool True"
  "field sample_pageProps ''lang'' = JStr ''fr''"
  "field sample_pageProps ''customer'' = JStr ''customer1''"
  "field sample_pageProps ''defaultLocales'' = JObj fmempty"
  by (simp_all add: sample_defs field_def)

lemma waiting_gate:
  "field waiting_props ''pageProps'' = JObj waiting_pageProps"
  "field waiting_pageProps ''isReadyToRender'' = JBool False"
  "field waiting_pageProps ''statusCode'' = JNum 200"
  "readyToRender (field waiting_props ''pageProps'') = Inr False"
  by (simp_all add: sample_defs field_def readyToRender_obj)

lemma sample_env_calls:
  "isBrowser (sample_env b) = b"
  "i18nextLocize (sample_env b) l d = Inr (JObj (fmap_of_list [(''language'', l), (''store'', d)]))"
  "initCustomerTheme (sample_env b) c =
     Inr (JObj (fmap_of_list [(''customer'', c), (''primaryColor'', JStr ''blue'')]))"
  "isRunningInIframe (sample_env b) = Inr (JBool False)"
  "getIframeReferrer (sample_env b) = Inr (JStr ''https://host.example'')"
  "newUniversalCookiesManager (sample_env b) = Inr (JObj (fmap_of_list [(''cookies'', JStr ''jar'')]))"
  "getUserData (sample_env b) m = Inr (JObj (fmap_of_list [(''id'', JStr ''u-1'')]))"
  by (simp_all add: sample_env_def)

text \<open>On the server, props whose pageProps are ready reach the universal renderer.\<close>

lemma server_run:
  assumes "field props ''pageProps'' = JObj sample_pageProps"
  shows "render (sample_env False) props =
     (Inr (Some (PageBootstrap
        (pageBootstrapProps (JObj sample_pageProps) (field props ''Component'')
           (field props ''err'')
           (JObj (fmap_of_list [(''language'', JStr ''fr''), (''store'', JObj fmempty)]))
           (field props ''router'')
           (JObj (fmap_of_list [(''customer'', JStr ''customer1''),
                                (''primaryColor'', JStr ''blue'')]))
           (restProps props)))),
      [breadcrumb, infoReady,
       CallI18nextLocize (JStr ''fr'') (JObj fmempty),
       CallInitCustomerTheme (JStr ''customer1'')])"
  using render_universal [OF assms sample_gate(2), of "sample_env False"]
  by (simp add: sample_env_calls sample_fields)

text \<open>In the browser, the same props reach the browser renderer.\<close>

lemma browser_run:
  assumes "field props ''pageProps'' = JObj sample_pageProps"
  shows "render (sample_env True) props =
     (Inr (Some (BrowserPageBootstrap
        (browserPageBootstrapProps
          (pageBootstrapProps (JObj sample_pageProps) (field props ''Component'')
             (field props ''err'')
             (JObj (fmap_of_list [(''language'', JStr ''fr''), (''store'', JObj fmempty)]))
             (field props ''router'')
             (JObj (fmap_of_list [(''customer'', JStr ''customer1''),
                                  (''primaryColor'', JStr ''blue'')]))
             (restProps props))
          (JBool False) (JStr ''https://host.example'')
          (JObj (fmap_of_list [(''cookies'', JStr ''jar'')]))
          (JObj (fmap_of_list [(''id'', JStr ''u-1'')]))))),
      [breadcrumb, ConsoleDebug ''MultiversalAppBootstrap.props'' (JObj props), infoReady,
       CallI18nextLocize (JStr ''fr'') (JObj fmempty),
       CallInitCustomerTheme (JStr ''customer1''),
       CallIsRunningInIframe, CallGetIframeReferrer, NewUniversalCookiesManager,
       CallGetUserData (JObj (fmap_of_list [(''cookies'', JStr ''jar'')]))])"
  using render_browser [OF assms sample_gate(2), of "sample_env True"]
  by (simp add: sample_env_calls sample_fields)

section \<open>The readiness gate\<close>

text \<open>
  Claim C1. When \<^verbatim>\<open>pageProps.isReadyToRender\<close> is false (more generally, falsy) and
  \<^verbatim>\<open>pageProps.statusCode\<close> is not 404, the component returns \<^verbatim>\<open>null\<close> and hands props
  to neither renderer. Conversely, whenever a renderer receives props, \<^verbatim>\<open>pageProps\<close> is
  an object whose readiness flag is truthy or whose status code is 404; for a flag of
  boolean type (true, false or absent) truthy means true.
\<close>

theorem readiness_gate:
  "(field props ''pageProps'' = JObj pp \<and> \<not> truthy (field pp ''isReadyToRender'')
      \<and> field pp ''statusCode'' \<noteq> JNum 404
      \<longrightarrow> fst (render env props) = Inr None \<and> delegatedProps env props = None)
   \<and> (delegatedProps env props \<noteq> None
      \<longrightarrow> (\<exists>pp. field props ''pageProps'' = JObj pp
             \<and> (truthy (field pp ''isReadyToRender'') \<or> field pp ''statusCode'' = JNum 404)
             \<and> (field pp ''isReadyToRender'' \<in> {JBool True, JBool False, JUndefined}
                  \<longrightarrow> field pp ''isReadyToRender'' = JBool True
                      \<or> field pp ''statusCode'' = JNum 404)))"
proof (intro conjI impI)
  assume h: "field props ''pageProps'' = JObj pp \<and> \<not> truthy (field pp ''isReadyToRender'')
      \<and> field pp ''statusCode'' \<noteq> JNum 404"
  then have "readyToRender (field props ''pageProps'') = Inr False"
    by (simp add: readyToRender_obj)
  then have r: "render env props = (Inr None, prologue env props @ [infoWaiting])"
    by (rule render_waiting)
  show "fst (render env props) = Inr None" by (simp add: r)
  show "delegatedProps env props = None" by (simp add: delegatedProps_def r)
next
  assume d: "delegatedProps env props \<noteq> None"
  show "\<exists>pp. field props ''pageProps'' = JObj pp
             \<and> (truthy (field pp ''isReadyToRender'') \<or> field pp ''statusCode'' = JNum 404)
             \<and> (field pp ''isReadyToRender'' \<in> {JBool True, JBool False, JUndefined}
                  \<longrightarrow> field pp ''isReadyToRender'' = JBool True
                      \<or> field pp ''statusCode'' = JNum 404)"
  proof (cases "readyToRender (field props ''pageProps'')")
    case (Inl e)
    then have "render env props = (Inl e, prologue env props)" by (rule render_gate_throws)
    with d show ?thesis by (simp add: delegatedProps_def)
  next
    case (Inr b)
    show ?thesis
    proof (cases b)
      case False
      with Inr have "render env props = (Inr None, prologue env props @ [infoWaiting])"
        by (simp add: render_waiting)
      with d show ?thesis by (simp add: delegatedProps_def)
    next
      case True
      with Inr have t: "readyToRender (field props ''pageProps'') = Inr True" by simp
      then obtain pp where pp: "field props ''pageProps'' = JObj pp"
        using readyToRender_True_obj by blast
      from t pp have "truthy (field pp ''isReadyToRender'') \<or> field pp ''statusCode'' = JNum 404"
        by (simp add: readyToRender_obj)
      with pp show ?thesis by auto
    qed
  qed
qed

theorem readiness_gate_witness:
  "(field waiting_props ''pageProps'' = JObj waiting_pageProps
      \<and> \<not> truthy (field waiting_pageProps ''isReadyToRender'')
      \<and> field waiting_pageProps ''statusCode'' \<noteq> JNum 404)
   \<and> fst (render (sample_env True) waiting_props) = Inr None
   \<and> delegatedProps (sample_env True) waiting_props = None
   \<and> delegatedProps (sample_env False) sample_props \<noteq> None
   \<and> (\<exists>pp. field sample_props ''pageProps'' = JObj pp
         \<and> (truthy (field pp ''isReadyToRender'') \<or> field pp ''statusCode'' = JNum 404))"
proof -
  have h: "field waiting_props ''pageProps'' = JObj waiting_pageProps
      \<and> \<not> truthy (field waiting_pageProps ''isReadyToRender'')
      \<and> field waiting_pageProps ''statusCode'' \<noteq> JNum 404"
    by (simp add: waiting_gate)
  have d: "delegatedProps (sample_env False) sample_props \<noteq> None"
    by (simp add: delegatedProps_def server_run [OF sample_gate(1)])
  from readiness_gate [of waiting_props waiting_pageProps "sample_env True"] h
  have a: "fst (render (sample_env True) waiting_props) = Inr None
           \<and> delegatedProps (sample_env True) waiting_props = None"
    by blast
  from readiness_gate [of sample_props sample_pageProps "sample_env False"] d
  have b: "\<exists>pp. field sample_props ''pageProps'' = JObj pp
         \<and> (truthy (field pp ''isReadyToRender'') \<or> field pp ''statusCode'' = JNum 404)"
    by blast
  from h a d b show ?thesis by blast
qed

section \<open>The waiting path\<close>

text \<open>
  Claim C8. When the readiness test fails (the flag is false, or more generally falsy, and
  the status code is not 404), the trace of the render pass is the breadcrumb, the
  \<^verbatim>\<open>console.debug\<close> line in a browser, and the \<^verbatim>\<open>console.info\<close> line that announces
  the wait, and nothing else: neither resolver, neither iframe utility and no part of the
  session manager is called.
\<close>

theorem waiting_no_collaborators:
  assumes "field props ''pageProps'' = JObj pp"
    and "\<not> truthy (field pp ''isReadyToRender'')"
    and "field pp ''statusCode'' \<noteq> JNum 404"
  shows "snd (render env props) = prologue env props @ [infoWaiting]
       \<and> (\<forall>ev \<in> set (snd (render env props)). \<not> isCollaboratorCall ev)
       \<and> (\<forall>l d. CallI18nextLocize l d \<notin> set (snd (render env props)))
       \<and> (\<forall>c. CallInitCustomerTheme c \<notin> set (snd (render env props)))
       \<and> NewUniversalCookiesManager \<notin> set (snd (render env props))
       \<and> (\<forall>m. CallGetUserData m \<notin> set (snd (render env props)))
       \<and> CallIsRunningInIframe \<notin> set (snd (render env props))
       \<and> CallGetIframeReferrer \<notin> set (snd (render env props))"
proof -
  from assms have "readyToRender (field props ''pageProps'') = Inr False"
    by (simp add: readyToRender_obj)
  then have r: "render env props = (Inr None, prologue env props @ [infoWaiting])"
    by (rule render_waiting)
  show ?thesis by (simp add: r prologue_def)
qed

theorem waiting_no_collaborators_witness:
  "field waiting_props ''pageProps'' = JObj waiting_pageProps
   \<and> \<not> truthy (field waiting_pageProps ''isReadyToRender'')
   \<and> field waiting_pageProps ''statusCode'' \<noteq> JNum 404
   \<and> snd (render (sample_env True) waiting_props) =
       [breadcrumb, ConsoleDebug ''MultiversalAppBootstrap.props'' (JObj waiting_props),
        infoWaiting]
   \<and> snd (render (sample_env False) waiting_props) = [breadcrumb, infoWaiting]"
proof -
  have a: "field waiting_props ''pageProps'' = JObj waiting_pageProps" by (rule waiting_gate(1))
  have b: "\<not> truthy (field waiting_pageProps ''isReadyToRender'')" by (simp add: waiting_gate)
  have c: "field waiting_pageProps ''statusCode'' \<noteq> JNum 404" by (simp add: waiting_gate)
  from waiting_no_collaborators [OF a b c, of "sample_env True"]
  have t: "snd (render (sample_env True) waiting_props) =
       [breadcrumb, ConsoleDebug ''MultiversalAppBootstrap.props'' (JObj waiting_props),
        infoWaiting]"
    by (simp add: prologue_def sample_env_calls)
  from waiting_no_collaborators [OF a b c, of "sample_env False"]
  have f: "snd (render (sample_env False) waiting_props) = [breadcrumb, infoWaiting]"
    by (simp add: prologue_def sample_env_calls)
  from a b c t f show ?thesis by blast
qed

section \<open>The two renderers\<close>

text \<open>
  Claim C3. Outside a browser, for props that pass the readiness test, no session
  manager is constructed, no session data is read, neither iframe utility is called, the
  browser renderer is never selected, and once both resolvers have returned the merged
  props go to the universal renderer \<^verbatim>\<open>PageBootstrap\<close>. Only an object passes the
  readiness test (lemma \<open>readyToRender_True_obj\<close>), hence the first premise.
\<close>

theorem server_branch:
  assumes "field props ''pageProps'' = JObj pp"
    and "readyToRender (JObj pp) = Inr True"
    and "\<not> isBrowser env"
  shows "NewUniversalCookiesManager \<notin> set (snd (render env props))
       \<and> (\<forall>m. CallGetUserData m \<notin> set (snd (render env props)))
       \<and> CallIsRunningInIframe \<notin> set (snd (render env props))
       \<and> CallGetIframeReferrer \<notin> set (snd (render env props))
       \<and> (\<forall>d. fst (render env props) \<noteq> Inr (Some (BrowserPageBootstrap d)))
       \<and> (i18nextLocize env (field pp ''lang'') (field pp ''defaultLocales'') = Inr i
            \<and> initCustomerTheme env (field pp ''customer'') = Inr th
          \<longrightarrow> fst (render env props) =
                Inr (Some (PageBootstrap
                  (pageBootstrapProps (JObj pp) (field props ''Component'') (field props ''err'')
                     i (field props ''router'') th (restProps props)))))"
  using render_ready [OF assms(1) assms(2), of env] assms(3)
  by (simp add: Let_def prologue_def split: sum.split)

theorem server_branch_witness:
  "field sample_props ''pageProps'' = JObj sample_pageProps
   \<and> readyToRender (JObj sample_pageProps) = Inr True
   \<and> \<not> isBrowser (sample_env False)
   \<and> NewUniversalCookiesManager \<notin> set (snd (render (sample_env False) sample_props))
   \<and> CallIsRunningInIframe \<notin> set (snd (render (sample_env False) sample_props))
   \<and> fst (render (sample_env False) sample_props) =
       Inr (Some (PageBootstrap
         (pageBootstrapProps (JObj sample_pageProps) (JStr ''Page'') JUndefined
            (JObj (fmap_of_list [(''language'', JStr ''fr''), (''store'', JObj fmempty)]))
            (JObj fmempty)
            (JObj (fmap_of_list [(''customer'', JStr ''customer1''),
                                 (''primaryColor'', JStr ''blue'')]))
            (restProps sample_props))))"
proof -
  have b: "\<not> isBrowser (sample_env False)" by (simp add: sample_env_calls)
  have f: "field sample_props ''Component'' = JStr ''Page''"
          "field sample_props ''err'' = JUndefined"
          "field sample_props ''router'' = JObj fmempty"
    by (simp_all add: sample_props_def field_def)
  from server_branch [OF sample_gate(1) sample_gate(2) b,
      of "JObj (fmap_of_list [(''language'', JStr ''fr''), (''store'', JObj fmempty)])"
         "JObj (fmap_of_list [(''customer'', JStr ''customer1''), (''primaryColor'', JStr ''blue'')])"]
  show ?thesis
    by (simp add: sample_gate sample_env_calls sample_fields f)
qed

text \<open>
  Claim C4. In a browser, for props that pass the readiness test and collaborators that
  return, the iframe flag and referrer are computed, a session manager is constructed and
  asked for the user data, and \<^verbatim>\<open>BrowserPageBootstrap\<close> receives the merged props extended
  with \<^verbatim>\<open>isInIframe\<close>, \<^verbatim>\<open>iframeReferrer\<close>, \<^verbatim>\<open>cookiesManager\<close> and \<^verbatim>\<open>userSession\<close>, each
  holding the value just computed.
\<close>

theorem browser_branch:
  assumes "field props ''pageProps'' = JObj pp"
    and "readyToRender (JObj pp) = Inr True"
    and "isBrowser env"
    and "i18nextLocize env (field pp ''lang'') (field pp ''defaultLocales'') = Inr i"
    and "initCustomerTheme env (field pp ''customer'') = Inr th"
    and "isRunningInIframe env = Inr fr"
    and "getIframeReferrer env = Inr rf"
    and "newUniversalCookiesManager env = Inr cm"
    and "getUserData env cm = Inr us"
  shows "NewUniversalCookiesManager \<in> set (snd (render env props))
       \<and> CallGetUserData cm \<in> set (snd (render env props))
       \<and> CallIsRunningInIframe \<in> set (snd (render env props))
       \<and> CallGetIframeReferrer \<in> set (snd (render env props))
       \<and> fst (render env props) =
           Inr (Some (BrowserPageBootstrap
             (browserPageBootstrapProps
               (pageBootstrapProps (JObj pp) (field props ''Component'') (field props ''err'')
                  i (field props ''router'') th (restProps props))
               fr rf cm us)))
       \<and> delegatedField env props ''cookiesManager'' = Some cm
       \<and> delegatedField env props ''userSession'' = Some us
       \<and> delegatedField env props ''isInIframe'' = Some fr
       \<and> delegatedField env props ''iframeReferrer'' = Some rf"
  by (simp add: render_browser [OF assms] delegatedField_def delegatedProps_def
        browserPageBootstrapProps_lookup)

theorem browser_branch_witness:
  "field sample_props ''pageProps'' = JObj sample_pageProps
   \<and> readyToRender (JObj sample_pageProps) = Inr True
   \<and> isBrowser (sample_env True)
   \<and> NewUniversalCookiesManager \<in> set (snd (render (sample_env True) sample_props))
   \<and> delegatedField (sample_env True) sample_props ''cookiesManager''
       = Some (JObj (fmap_of_list [(''cookies'', JStr ''jar'')]))
   \<and> delegatedField (sample_env True) sample_props ''userSession''
       = Some (JObj (fmap_of_list [(''id'', JStr ''u-1'')]))
   \<and> delegatedField (sample_env True) sample_props ''isInIframe'' = Some (JBool False)
   \<and> delegatedField (sample_env True) sample_props ''iframeReferrer''
       = Some (JStr ''https://host.example'')"
proof -
  have b: "isBrowser (sample_env True)" by (simp add: sample_env_calls)
  from browser_branch [OF sample_gate(1) sample_gate(2) b sample_env_calls(2)
      sample_env_calls(3) sample_env_calls(4) sample_env_calls(5) sample_env_calls(6)
      sample_env_calls(7)]
  show ?thesis
    using sample_gate b by simp
qed

section \<open>The resolvers\<close>

text \<open>
  Claim C2, amended. With \<^verbatim>\<open>pageProps.isReadyToRender\<close> true the internationalization
  resolver is called with the supplied \<^verbatim>\<open>lang\<close> and \<^verbatim>\<open>defaultLocales\<close>; when it returns,
  the theme resolver is called with the supplied \<^verbatim>\<open>customer\<close>; and when props are
  delegated they hold the two results under \<^verbatim>\<open>i18nextInstance\<close> and \<^verbatim>\<open>theme\<close>, unless
  the incoming props carry a passthrough field of that name, whose value is delegated
  instead.
\<close>

theorem resolvers_called:
  assumes "field props ''pageProps'' = JObj pp"
    and "field pp ''isReadyToRender'' = JBool True"
  shows "CallI18nextLocize (field pp ''lang'') (field pp ''defaultLocales'')
           \<in> set (snd (render env props))
       \<and> (i18nextLocize env (field pp ''lang'') (field pp ''defaultLocales'') = Inr i
          \<longrightarrow> CallInitCustomerTheme (field pp ''customer'') \<in> set (snd (render env props))
            \<and> (initCustomerTheme env (field pp ''customer'') = Inr th
                  \<and> delegatedProps env props \<noteq> None
               \<longrightarrow> delegatedField env props ''i18nextInstance'' =
                     Some (case fmlookup props ''i18nextInstance'' of None \<Rightarrow> i | Some v \<Rightarrow> v)
                 \<and> delegatedField env props ''theme'' =
                     Some (case fmlookup props ''theme'' of None \<Rightarrow> th | Some v \<Rightarrow> v)))"
proof -
  from assms(2) have rdy: "readyToRender (JObj pp) = Inr True"
    by (simp add: readyToRender_obj)
  note tr = ready_trace [OF assms(1) rdy, of env]
  have look: "delegatedField env props ''i18nextInstance'' =
                Some (case fmlookup props ''i18nextInstance'' of None \<Rightarrow> i | Some v \<Rightarrow> v)
            \<and> delegatedField env props ''theme'' =
                Some (case fmlookup props ''theme'' of None \<Rightarrow> th | Some v \<Rightarrow> v)"
    if "i18nextLocize env (field pp ''lang'') (field pp ''defaultLocales'') = Inr i"
      and "initCustomerTheme env (field pp ''customer'') = Inr th"
      and "delegatedProps env props \<noteq> None"
    using delegated_lookup [OF assms(1) rdy that, of "''i18nextInstance''"]
          delegated_lookup [OF assms(1) rdy that, of "''theme''"]
    by (simp add: pageBootstrapProps_lookup restProps_lookup split: option.split)
  from tr look show ?thesis by blast
qed

theorem resolvers_called_witness:
  "field sample_props ''pageProps'' = JObj sample_pageProps
   \<and> field sample_pageProps ''isReadyToRender'' = JBool True
   \<and> CallI18nextLocize (JStr ''fr'') (JObj fmempty)
        \<in> set (snd (render (sample_env False) sample_props))
   \<and> CallInitCustomerTheme (JStr ''customer1'')
        \<in> set (snd (render (sample_env False) sample_props))
   \<and> delegatedField (sample_env False) sample_props ''i18nextInstance'' =
        Some (JObj (fmap_of_list [(''language'', JStr ''fr''), (''store'', JObj fmempty)]))
   \<and> delegatedField (sample_env False) sample_props ''theme'' =
        Some (JObj (fmap_of_list [(''customer'', JStr ''customer1''),
                                  (''primaryColor'', JStr ''blue'')]))"
proof -
  have d: "delegatedProps (sample_env False) sample_props \<noteq> None"
    by (simp add: delegatedProps_def server_run [OF sample_gate(1)])
  have n: "fmlookup sample_props ''i18nextInstance'' = None"
          "fmlookup sample_props ''theme'' = None"
    by (simp_all add: sample_props_def)
  from resolvers_called [OF sample_gate(1) sample_fields(1), of "sample_env False"
      "JObj (fmap_of_list [(''language'', JStr ''fr''), (''store'', JObj fmempty)])"
      "JObj (fmap_of_list [(''customer'', JStr ''customer1''), (''primaryColor'', JStr ''blue'')])"]
  show ?thesis
    using d n by (simp add: sample_gate sample_fields sample_env_calls)
qed

text \<open>
  The claim as stated fails: a passthrough field named \<^verbatim>\<open>theme\<close> is spread after the
  resolved theme and replaces it.
\<close>

theorem resolvers_overridden_counterexample:
  "field override_props ''pageProps'' = JObj sample_pageProps
   \<and> field sample_pageProps ''isReadyToRender'' = JBool True
   \<and> initCustomerTheme (sample_env False) (field sample_pageProps ''customer'') =
        Inr (JObj (fmap_of_list [(''customer'', JStr ''customer1''),
                                 (''primaryColor'', JStr ''blue'')]))
   \<and> delegatedField (sample_env False) override_props ''theme'' = Some (JStr ''mine'')
   \<and> delegatedField (sample_env False) override_props ''theme'' \<noteq>
        Some (JObj (fmap_of_list [(''customer'', JStr ''customer1''),
                                  (''primaryColor'', JStr ''blue'')]))"
proof -
  have t: "delegatedField (sample_env False) override_props ''theme'' = Some (JStr ''mine'')"
    by (simp add: delegatedField_def delegatedProps_def server_run [OF sample_gate(3)]
          pageBootstrapProps_lookup restProps_lookup)
       (simp add: override_props_def)
  show ?thesis
    by (simp add: t sample_gate sample_fields sample_env_calls)
qed

section \<open>Passthrough fields\<close>

text \<open>
  Claim C5, amended. For props that pass the readiness test and are delegated, every
  incoming field other than \<^verbatim>\<open>pageProps\<close> (the passthrough fields, and \<^verbatim>\<open>Component\<close>,
  \<^verbatim>\<open>err\<close> and \<^verbatim>\<open>router\<close>) reaches the universal renderer with its value unchanged; it
  reaches the browser renderer unchanged too, provided it is not named \<^verbatim>\<open>isInIframe\<close>,
  \<^verbatim>\<open>iframeReferrer\<close>, \<^verbatim>\<open>cookiesManager\<close> or \<^verbatim>\<open>userSession\<close>. The incoming
  \<^verbatim>\<open>pageProps\<close> field is not passed on: the delegated \<^verbatim>\<open>pageProps\<close> entry is the one
  that \<^verbatim>\<open>pageProps\<close> itself holds under that name, if any. Instead the fields of
  \<^verbatim>\<open>pageProps\<close> are spread into the delegated props: each appears with its value, unless
  a passthrough field has the same name, or the name is \<^verbatim>\<open>Component\<close>, \<^verbatim>\<open>err\<close>,
  \<^verbatim>\<open>i18nextInstance\<close>, \<^verbatim>\<open>router\<close> or \<^verbatim>\<open>theme\<close>, or, in the browser branch, one of the
  four names above.
\<close>

theorem passthrough_preserved:
  assumes "field props ''pageProps'' = JObj pp"
    and "readyToRender (JObj pp) = Inr True"
    and "delegatedProps env props \<noteq> None"
  shows "(fmlookup props k = Some v \<and> k \<noteq> ''pageProps''
            \<and> (isBrowser env \<longrightarrow>
                  k \<notin> {''isInIframe'', ''iframeReferrer'', ''cookiesManager'', ''userSession''})
          \<longrightarrow> delegatedField env props k = Some v)
       \<and> delegatedField env props ''pageProps'' = fmlookup pp ''pageProps''
       \<and> (fmlookup pp k = Some w \<and> fmlookup (restProps props) k = None
            \<and> k \<notin> {''Component'', ''err'', ''i18nextInstance'', ''router'', ''theme''}
            \<and> (isBrowser env \<longrightarrow>
                  k \<notin> {''isInIframe'', ''iframeReferrer'', ''cookiesManager'', ''userSession''})
          \<longrightarrow> delegatedField env props k = Some w)"
proof -
  from assms(3) obtain r where r: "fst (render env props) = Inr r"
    by (auto simp: delegatedProps_def split: sum.splits)
  from render_returns [OF assms(1) assms(2) r]
  obtain i th where i: "i18nextLocize env (field pp ''lang'') (field pp ''defaultLocales'') = Inr i"
    and th: "initCustomerTheme env (field pp ''customer'') = Inr th"
    by blast
  note look = delegated_lookup [OF assms(1) assms(2) i th assms(3)]
  have incoming: "delegatedField env props k = Some v"
    if kv: "fmlookup props k = Some v" and np: "k \<noteq> ''pageProps''"
      and br: "isBrowser env \<longrightarrow>
                 k \<notin> {''isInIframe'', ''iframeReferrer'', ''cookiesManager'', ''userSession''}"
  proof -
    have "fmlookup (pageBootstrapProps (JObj pp) (field props ''Component'')
                     (field props ''err'') i (field props ''router'') th (restProps props)) k
            = Some v"
    proof (cases "k \<in> {''Component'', ''err'', ''router''}")
      case True
      then consider "k = ''Component''" | "k = ''err''" | "k = ''router''" by blast
      then show ?thesis
        using kv
        by cases (simp_all add: pageBootstrapProps_lookup restProps_lookup field_def)
    next
      case False
      with kv np have "fmlookup (restProps props) k = Some v"
        by (simp add: restProps_lookup)
      then show ?thesis by (simp add: pageBootstrapProps_lookup)
    qed
    with look [OF br] show ?thesis by simp
  qed
  have own: "delegatedField env props ''pageProps'' = fmlookup pp ''pageProps''"
  proof -
    have "isBrowser env \<longrightarrow>
            ''pageProps'' \<notin> {''isInIframe'', ''iframeReferrer'', ''cookiesManager'', ''userSession''}"
      by simp
    from look [OF this] show ?thesis
      by (simp add: pageBootstrapProps_lookup restProps_lookup)
  qed
  have spread: "delegatedField env props k = Some w"
    if kw: "fmlookup pp k = Some w" and nr: "fmlookup (restProps props) k = None"
      and nn: "k \<notin> {''Component'', ''err'', ''i18nextInstance'', ''router'', ''theme''}"
      and br: "isBrowser env \<longrightarrow>
                 k \<notin> {''isInIframe'', ''iframeReferrer'', ''cookiesManager'', ''userSession''}"
  proof -
    from kw nr nn
    have "fmlookup (pageBootstrapProps (JObj pp) (field props ''Component'')
                     (field props ''err'') i (field props ''router'') th (restProps props)) k
            = Some w"
      by (simp add: pageBootstrapProps_lookup)
    with look [OF br] show ?thesis by simp
  qed
  show ?thesis
  proof (intro conjI impI)
    assume h: "fmlookup props k = Some v \<and> k \<noteq> ''pageProps''
            \<and> (isBrowser env \<longrightarrow>
                  k \<notin> {''isInIframe'', ''iframeReferrer'', ''cookiesManager'', ''userSession''})"
    from h have kv: "fmlookup props k = Some v" by (rule conjunct1)
    from h have np: "k \<noteq> ''pageProps''" by (rule conjunct1 [OF conjunct2])
    from h have br: "isBrowser env \<longrightarrow>
                  k \<notin> {''isInIframe'', ''iframeReferrer'', ''cookiesManager'', ''userSession''}"
      by (rule conjunct2 [OF conjunct2])
    from incoming [OF kv np br] show "delegatedField env props k = Some v" .
  next
    show "delegatedField env props ''pageProps'' = fmlookup pp ''pageProps''" by (rule own)
  next
    assume h: "fmlookup pp k = Some w \<and> fmlookup (restProps props) k = None
            \<and> k \<notin> {''Component'', ''err'', ''i18nextInstance'', ''router'', ''theme''}
            \<and> (isBrowser env \<longrightarrow>
                  k \<notin> {''isInIframe'', ''iframeReferrer'', ''cookiesManager'', ''userSession''})"
    from h have kw: "fmlookup pp k = Some w" by (rule conjunct1)
    from h have nr: "fmlookup (restProps props) k = None" by (rule conjunct1 [OF conjunct2])
    from h have nn: "k \<notin> {''Component'', ''err'', ''i18nextInstance'', ''router'', ''theme''}"
      by (rule conjunct1 [OF conjunct2 [OF conjunct2]])
    from h have br: "isBrowser env \<longrightarrow>
                  k \<notin> {''isInIframe'', ''iframeReferrer'', ''cookiesManager'', ''userSession''}"
      by (rule conjunct2 [OF conjunct2 [OF conjunct2]])
    from spread [OF kw nr nn br] show "delegatedField env props k = Some w" .
  qed
qed

theorem passthrough_preserved_witness:
  "field sample_props ''pageProps'' = JObj sample_pageProps
   \<and> readyToRender (JObj sample_pageProps) = Inr True
   \<and> delegatedProps (sample_env True) sample_props \<noteq> None
   \<and> fmlookup sample_props ''__N_SSG'' = Some (JBool True)
   \<and> delegatedField (sample_env True) sample_props ''__N_SSG'' = Some (JBool True)
   \<and> fmlookup override_props ''isInIframe'' = Some (JStr ''yes'')
   \<and> delegatedField (sample_env False) override_props ''isInIframe'' = Some (JStr ''yes'')
   \<and> fmlookup sample_props ''pageProps'' = Some (JObj sample_pageProps)
   \<and> delegatedField (sample_env True) sample_props ''pageProps'' = None
   \<and> fmlookup sample_pageProps ''lang'' = Some (JStr ''fr'')
   \<and> fmlookup (restProps sample_props) ''lang'' = None
   \<and> delegatedField (sample_env True) sample_props ''lang'' = Some (JStr ''fr'')"
proof -
  have d: "delegatedProps (sample_env True) sample_props \<noteq> None"
    by (simp add: delegatedProps_def browser_run [OF sample_gate(1)])
  have d': "delegatedProps (sample_env False) override_props \<noteq> None"
    by (simp add: delegatedProps_def server_run [OF sample_gate(3)])
  have k: "fmlookup sample_props ''__N_SSG'' = Some (JBool True)"
          "fmlookup sample_props ''pageProps'' = Some (JObj sample_pageProps)"
          "fmlookup (restProps sample_props) ''lang'' = None"
    by (simp_all add: sample_props_def restProps_lookup)
  have k': "fmlookup override_props ''isInIframe'' = Some (JStr ''yes'')"
    by (simp add: override_props_def)
  have p: "fmlookup sample_pageProps ''lang'' = Some (JStr ''fr'')"
          "fmlookup sample_pageProps ''pageProps'' = None"
    by (simp_all add: sample_pageProps_def)
  from passthrough_preserved [OF sample_gate(1) sample_gate(2) d,
      of "''__N_SSG''" "JBool True" "JStr ''fr''"] k
  have a: "delegatedField (sample_env True) sample_props ''__N_SSG'' = Some (JBool True)"
    by simp
  from passthrough_preserved [OF sample_gate(3) sample_gate(2) d',
      of "''isInIframe''" "JStr ''yes''" "JStr ''fr''"] k'
  have b: "delegatedField (sample_env False) override_props ''isInIframe'' = Some (JStr ''yes'')"
    by (simp add: sample_env_calls)
  from passthrough_preserved [OF sample_gate(1) sample_gate(2) d,
      of "''lang''" "JStr ''fr''" "JStr ''fr''"] k p
  have c: "delegatedField (sample_env True) sample_props ''pageProps'' = None
         \<and> delegatedField (sample_env True) sample_props ''lang'' = Some (JStr ''fr'')"
    by simp
  from sample_gate d k k' p a b c show ?thesis by blast
qed

text \<open>
  The claim as stated fails twice: in a browser a passthrough field named \<^verbatim>\<open>isInIframe\<close>
  is replaced by the computed flag, and in either branch the incoming \<^verbatim>\<open>pageProps\<close> field
  is spread, not delegated, so the delegated props are no superset of the incoming ones.
\<close>

theorem passthrough_counterexample:
  "field override_props ''pageProps'' = JObj sample_pageProps
   \<and> readyToRender (JObj sample_pageProps) = Inr True
   \<and> delegatedProps (sample_env True) override_props \<noteq> None
   \<and> fmlookup override_props ''isInIframe'' = Some (JStr ''yes'')
   \<and> delegatedField (sample_env True) override_props ''isInIframe'' = Some (JBool False)
   \<and> fmlookup override_props ''pageProps'' = Some (JObj sample_pageProps)
   \<and> delegatedField (sample_env True) override_props ''pageProps'' = None
   \<and> delegatedProps (sample_env False) override_props \<noteq> None
   \<and> delegatedField (sample_env False) override_props ''pageProps'' = None"
proof -
  have d: "delegatedProps (sample_env True) override_props \<noteq> None"
    by (simp add: delegatedProps_def browser_run [OF sample_gate(3)])
  have d': "delegatedProps (sample_env False) override_props \<noteq> None"
    by (simp add: delegatedProps_def server_run [OF sample_gate(3)])
  have k: "fmlookup override_props ''isInIframe'' = Some (JStr ''yes'')"
          "fmlookup override_props ''pageProps'' = Some (JObj sample_pageProps)"
    by (simp_all add: override_props_def)
  have a: "delegatedField (sample_env True) override_props ''isInIframe'' = Some (JBool False)"
    by (simp add: delegatedField_def delegatedProps_def browser_run [OF sample_gate(3)]
          browserPageBootstrapProps_lookup)
  have b: "delegatedField (sample_env True) override_props ''pageProps'' = None"
    by (simp add: delegatedField_def delegatedProps_def browser_run [OF sample_gate(3)]
          browserPageBootstrapProps_lookup pageBootstrapProps_lookup restProps_lookup)
       (simp add: sample_pageProps_def)
  have c: "delegatedField (sample_env False) override_props ''pageProps'' = None"
    by (simp add: delegatedField_def delegatedProps_def server_run [OF sample_gate(3)]
          pageBootstrapProps_lookup restProps_lookup)
       (simp add: sample_pageProps_def)
  from sample_gate d d' k a b c show ?thesis by blast
qed

section \<open>The order of the spreads\<close>

text \<open>
  Claim C9. The merged props take a field from the passthrough rest if it is there, else
  from the named entries \<^verbatim>\<open>Component\<close>, \<^verbatim>\<open>err\<close>, \<^verbatim>\<open>i18nextInstance\<close>, \<^verbatim>\<open>router\<close>,
  \<^verbatim>\<open>theme\<close>, else from \<^verbatim>\<open>pageProps\<close>: the literal spreads \<^verbatim>\<open>pageProps\<close> first and the
  rest last. So a passthrough field with one of the five names replaces the named entry
  (the rest never holds \<^verbatim>\<open>Component\<close>, \<^verbatim>\<open>err\<close> or \<^verbatim>\<open>router\<close>, see \<open>restProps_lookup\<close>,
  so for these the case does not arise). In the browser branch \<^verbatim>\<open>isInIframe\<close>,
  \<^verbatim>\<open>iframeReferrer\<close>, \<^verbatim>\<open>cookiesManager\<close> and \<^verbatim>\<open>userSession\<close> hold the freshly computed
  values whatever the passthrough fields are, and every other field is that of the merged
  props.
\<close>

theorem spread_order:
  fixes pp props :: jsobj and i th :: jsval and merged :: jsobj
  defines "merged \<equiv> pageBootstrapProps (JObj pp) (field props ''Component'') (field props ''err'')
                       i (field props ''router'') th (restProps props)"
  assumes "field props ''pageProps'' = JObj pp"
    and "readyToRender (JObj pp) = Inr True"
    and "i18nextLocize env (field pp ''lang'') (field pp ''defaultLocales'') = Inr i"
    and "initCustomerTheme env (field pp ''customer'') = Inr th"
  shows "fmlookup merged k =
           (case fmlookup (restProps props) k of
              Some v \<Rightarrow> Some v
            | None \<Rightarrow>
                if k = ''theme'' then Some th
                else if k = ''router'' then Some (field props ''router'')
                else if k = ''i18nextInstance'' then Some i
                else if k = ''err'' then Some (field props ''err'')
                else if k = ''Component'' then Some (field props ''Component'')
                else fmlookup pp k)
       \<and> (k \<in> {''i18nextInstance'', ''theme'', ''Component'', ''err'', ''router''}
            \<and> fmlookup (restProps props) k = Some v
          \<longrightarrow> fmlookup merged k = Some v)
       \<and> (\<not> isBrowser env \<longrightarrow> fst (render env props) = Inr (Some (PageBootstrap merged)))
       \<and> (isBrowser env \<and> isRunningInIframe env = Inr fr \<and> getIframeReferrer env = Inr rf
            \<and> newUniversalCookiesManager env = Inr cm \<and> getUserData env cm = Inr us
          \<longrightarrow> fst (render env props) =
                Inr (Some (BrowserPageBootstrap (browserPageBootstrapProps merged fr rf cm us)))
            \<and> delegatedField env props ''isInIframe'' = Some fr
            \<and> delegatedField env props ''iframeReferrer'' = Some rf
            \<and> delegatedField env props ''cookiesManager'' = Some cm
            \<and> delegatedField env props ''userSession'' = Some us
            \<and> (k \<notin> {''isInIframe'', ''iframeReferrer'', ''cookiesManager'', ''userSession''}
                \<longrightarrow> delegatedField env props k = fmlookup merged k))"
proof (intro conjI impI)
  show "fmlookup merged k =
           (case fmlookup (restProps props) k of
              Some v \<Rightarrow> Some v
            | None \<Rightarrow>
                if k = ''theme'' then Some th
                else if k = ''router'' then Some (field props ''router'')
                else if k = ''i18nextInstance'' then Some i
                else if k = ''err'' then Some (field props ''err'')
                else if k = ''Component'' then Some (field props ''Component'')
                else fmlookup pp k)"
    by (simp add: merged_def pageBootstrapProps_lookup split: option.split)
next
  assume "k \<in> {''i18nextInstance'', ''theme'', ''Component'', ''err'', ''router''}
            \<and> fmlookup (restProps props) k = Some v"
  then show "fmlookup merged k = Some v"
    by (simp add: merged_def pageBootstrapProps_lookup)
next
  assume "\<not> isBrowser env"
  from render_universal [OF assms(2) assms(3) this assms(4) assms(5)]
  show "fst (render env props) = Inr (Some (PageBootstrap merged))"
    by (simp add: merged_def)
next
  assume b: "isBrowser env \<and> isRunningInIframe env = Inr fr \<and> getIframeReferrer env = Inr rf
            \<and> newUniversalCookiesManager env = Inr cm \<and> getUserData env cm = Inr us"
  then have r: "render env props =
     (Inr (Some (BrowserPageBootstrap (browserPageBootstrapProps merged fr rf cm us))),
      [breadcrumb, ConsoleDebug ''MultiversalAppBootstrap.props'' (JObj props), infoReady,
       CallI18nextLocize (field pp ''lang'') (field pp ''defaultLocales''),
       CallInitCustomerTheme (field pp ''customer''),
       CallIsRunningInIframe, CallGetIframeReferrer, NewUniversalCookiesManager,
       CallGetUserData cm])"
    unfolding merged_def
    using render_browser [OF assms(2) assms(3) _ assms(4) assms(5), of fr rf cm us] by blast
  show "fst (render env props) =
          Inr (Some (BrowserPageBootstrap (browserPageBootstrapProps merged fr rf cm us)))"
    by (simp add: r)
  show "delegatedField env props ''isInIframe'' = Some fr"
    by (simp add: r delegatedField_def delegatedProps_def browserPageBootstrapProps_lookup)
  show "delegatedField env props ''iframeReferrer'' = Some rf"
    by (simp add: r delegatedField_def delegatedProps_def browserPageBootstrapProps_lookup)
  show "delegatedField env props ''cookiesManager'' = Some cm"
    by (simp add: r delegatedField_def delegatedProps_def browserPageBootstrapProps_lookup)
  show "delegatedField env props ''userSession'' = Some us"
    by (simp add: r delegatedField_def delegatedProps_def browserPageBootstrapProps_lookup)
  show "delegatedField env props k = fmlookup merged k"
    if "k \<notin> {''isInIframe'', ''iframeReferrer'', ''cookiesManager'', ''userSession''}"
    using that
    by (simp add: r delegatedField_def delegatedProps_def browserPageBootstrapProps_lookup)
qed

theorem spread_order_witness:
  "field override_props ''pageProps'' = JObj sample_pageProps
   \<and> readyToRender (JObj sample_pageProps) = Inr True
   \<and> fmlookup (restProps override_props) ''theme'' = Some (JStr ''mine'')
   \<and> fmlookup (pageBootstrapProps (JObj sample_pageProps) (field override_props ''Component'')
        (field override_props ''err'')
        (JObj (fmap_of_list [(''language'', JStr ''fr''), (''store'', JObj fmempty)]))
        (field override_props ''router'')
        (JObj (fmap_of_list [(''customer'', JStr ''customer1''), (''primaryColor'', JStr ''blue'')]))
        (restProps override_props)) ''theme'' = Some (JStr ''mine'')
   \<and> isBrowser (sample_env True)
   \<and> fmlookup (restProps override_props) ''isInIframe'' = Some (JStr ''yes'')
   \<and> delegatedField (sample_env True) override_props ''isInIframe'' = Some (JBool False)"
proof -
  have k: "fmlookup (restProps override_props) ''theme'' = Some (JStr ''mine'')"
          "fmlookup (restProps override_props) ''isInIframe'' = Some (JStr ''yes'')"
    by (simp_all add: restProps_lookup override_props_def)
  note w = spread_order [OF sample_gate(3) sample_gate(2),
      where env = "sample_env True"
        and i = "JObj (fmap_of_list [(''language'', JStr ''fr''), (''store'', JObj fmempty)])"
        and th = "JObj (fmap_of_list [(''customer'', JStr ''customer1''), (''primaryColor'', JStr ''blue'')])"
        and k = "''theme''" and v = "JStr ''mine''" and fr = "JBool False"
        and rf = "JStr ''https://host.example''"
        and cm = "JObj (fmap_of_list [(''cookies'', JStr ''jar'')])"
        and us = "JObj (fmap_of_list [(''id'', JStr ''u-1'')])"]
  have h: "i18nextLocize (sample_env True) (field sample_pageProps ''lang'')
             (field sample_pageProps ''defaultLocales'')
           = Inr (JObj (fmap_of_list [(''language'', JStr ''fr''), (''store'', JObj fmempty)]))"
          "initCustomerTheme (sample_env True) (field sample_pageProps ''customer'')
           = Inr (JObj (fmap_of_list [(''customer'', JStr ''customer1''), (''primaryColor'', JStr ''blue'')]))"
    by (simp_all add: sample_env_calls sample_fields)
  from w [OF h] k show ?thesis
    by (simp add: sample_gate sample_env_calls)
qed

section \<open>Breadcrumb and console output\<close>

text \<open>
  Claim C6, amended. Every render pass emits exactly one breadcrumb. The
  \<^verbatim>\<open>console.debug\<close> dump of the props is emitted once in a browser and never outside
  one. The \<^verbatim>\<open>console.info\<close> line is not guarded: whenever the readiness test is
  evaluated, exactly one such line is emitted, in a browser or not, announcing the render
  or the wait.
\<close>

theorem breadcrumb_and_console:
  "length (filter isBreadcrumb (snd (render env props))) = 1
   \<and> (isBrowser env \<longrightarrow> length (filter isConsoleDebug (snd (render env props))) = 1)
   \<and> (\<not> isBrowser env \<longrightarrow> filter isConsoleDebug (snd (render env props)) = [])
   \<and> (readyToRender (field props ''pageProps'') = Inr b
        \<longrightarrow> filter isConsoleInfo (snd (render env props))
              = [if b then infoReady else infoWaiting])"
proof (cases "readyToRender (field props ''pageProps'')")
  case (Inl e)
  then have "render env props = (Inl e, prologue env props)" by (rule render_gate_throws)
  with Inl show ?thesis by (simp add: prologue_def)
next
  case (Inr c)
  show ?thesis
  proof (cases c)
    case False
    with Inr have "render env props = (Inr None, prologue env props @ [infoWaiting])"
      by (simp add: render_waiting)
    with Inr False show ?thesis by (simp add: prologue_def)
  next
    case True
    with Inr have t: "readyToRender (field props ''pageProps'') = Inr True" by simp
    then obtain pp where pp: "field props ''pageProps'' = JObj pp"
      using readyToRender_True_obj by blast
    from t pp have rdy: "readyToRender (JObj pp) = Inr True" by simp
    from ready_trace_filters [OF pp rdy, of env] t show ?thesis by simp
  qed
qed

theorem breadcrumb_and_console_witness:
  "length (filter isBreadcrumb (snd (render (sample_env False) waiting_props))) = 1
   \<and> \<not> isBrowser (sample_env False)
   \<and> filter isConsoleDebug (snd (render (sample_env False) waiting_props)) = []
   \<and> readyToRender (field waiting_props ''pageProps'') = Inr False
   \<and> filter isConsoleInfo (snd (render (sample_env False) waiting_props)) = [infoWaiting]
   \<and> isBrowser (sample_env True)
   \<and> length (filter isConsoleDebug (snd (render (sample_env True) waiting_props))) = 1"
proof -
  note g = waiting_gate(4)
  have s: "\<not> isBrowser (sample_env False)" and b: "isBrowser (sample_env True)"
    by (simp_all add: sample_env_calls)
  from breadcrumb_and_console [of "sample_env False" waiting_props False] g s
  have x: "length (filter isBreadcrumb (snd (render (sample_env False) waiting_props))) = 1
      \<and> filter isConsoleDebug (snd (render (sample_env False) waiting_props)) = []
      \<and> filter isConsoleInfo (snd (render (sample_env False) waiting_props)) = [infoWaiting]"
    by simp
  from breadcrumb_and_console [of "sample_env True" waiting_props False] b
  have y: "length (filter isConsoleDebug (snd (render (sample_env True) waiting_props))) = 1"
    by blast
  from g s b x y show ?thesis by blast
qed

text \<open>
  The claim as stated fails: outside a browser the \<^verbatim>\<open>console.info\<close> line is still
  written, on the waiting path and on the ready path.
\<close>

theorem console_info_on_server_counterexample:
  "\<not> isBrowser (sample_env False)
   \<and> isConsoleInfo infoWaiting
   \<and> infoWaiting \<in> set (snd (render (sample_env False) waiting_props))
   \<and> isConsoleInfo infoReady
   \<and> infoReady \<in> set (snd (render (sample_env False) sample_props))"
  by (simp add: sample_env_calls render_waiting [OF waiting_gate(4)]
        server_run [OF sample_gate(1)])

section \<open>Failing collaborators\<close>

text \<open>
  Claim C7. For props that pass the readiness test, the first collaborator call that
  throws ends the render pass with the very error it threw: the internationalization
  resolver, then the theme resolver, then in a browser the iframe flag, the iframe
  referrer, the construction of the session manager and the reading of the session.
  Nothing is caught: a pass that returns has seen every collaborator on its path return.
\<close>

theorem failures_propagate:
  assumes "field props ''pageProps'' = JObj pp"
    and "readyToRender (JObj pp) = Inr True"
  shows "(i18nextLocize env (field pp ''lang'') (field pp ''defaultLocales'') = Inl e
          \<longrightarrow> fst (render env props) = Inl e)
       \<and> (i18nextLocize env (field pp ''lang'') (field pp ''defaultLocales'') = Inr i
            \<and> initCustomerTheme env (field pp ''customer'') = Inl e
          \<longrightarrow> fst (render env props) = Inl e)
       \<and> (isBrowser env
            \<and> i18nextLocize env (field pp ''lang'') (field pp ''defaultLocales'') = Inr i
            \<and> initCustomerTheme env (field pp ''customer'') = Inr th
          \<longrightarrow> (isRunningInIframe env = Inl e \<longrightarrow> fst (render env props) = Inl e)
            \<and> (isRunningInIframe env = Inr fr \<and> getIframeReferrer env = Inl e
                \<longrightarrow> fst (render env props) = Inl e)
            \<and> (isRunningInIframe env = Inr fr \<and> getIframeReferrer env = Inr rf
                  \<and> newUniversalCookiesManager env = Inl e
                \<longrightarrow> fst (render env props) = Inl e)
            \<and> (isRunningInIframe env = Inr fr \<and> getIframeReferrer env = Inr rf
                  \<and> newUniversalCookiesManager env = Inr cm \<and> getUserData env cm = Inl e
                \<longrightarrow> fst (render env props) = Inl e))
       \<and> (fst (render env props) = Inr r
          \<longrightarrow> (\<exists>i th. i18nextLocize env (field pp ''lang'') (field pp ''defaultLocales'') = Inr i
                  \<and> initCustomerTheme env (field pp ''customer'') = Inr th
                  \<and> (isBrowser env \<longrightarrow>
                       (\<exists>fr rf cm us. isRunningInIframe env = Inr fr
                          \<and> getIframeReferrer env = Inr rf
                          \<and> newUniversalCookiesManager env = Inr cm
                          \<and> getUserData env cm = Inr us))))"
proof -
  note rr = render_ready [OF assms(1) assms(2), of env]
  have a: "fst (render env props) = Inl e"
    if "i18nextLocize env (field pp ''lang'') (field pp ''defaultLocales'') = Inl e"
    using rr that by (simp add: Let_def)
  have b: "fst (render env props) = Inl e"
    if "i18nextLocize env (field pp ''lang'') (field pp ''defaultLocales'') = Inr i"
      and "initCustomerTheme env (field pp ''customer'') = Inl e"
    using rr that by (simp add: Let_def)
  have c: "fst (render env props) = Inl e"
    if "isBrowser env"
      and "i18nextLocize env (field pp ''lang'') (field pp ''defaultLocales'') = Inr i"
      and "initCustomerTheme env (field pp ''customer'') = Inr th"
      and "isRunningInIframe env = Inl e"
    using rr that by (simp add: Let_def)
  have d: "fst (render env props) = Inl e"
    if "isBrowser env"
      and "i18nextLocize env (field pp ''lang'') (field pp ''defaultLocales'') = Inr i"
      and "initCustomerTheme env (field pp ''customer'') = Inr th"
      and "isRunningInIframe env = Inr fr" and "getIframeReferrer env = Inl e"
    using rr that by (simp add: Let_def)
  have f: "fst (render env props) = Inl e"
    if "isBrowser env"
      and "i18nextLocize env (field pp ''lang'') (field pp ''defaultLocales'') = Inr i"
      and "initCustomerTheme env (field pp ''customer'') = Inr th"
      and "isRunningInIframe env = Inr fr" and "getIframeReferrer env = Inr rf"
      and "newUniversalCookiesManager env = Inl e"
    using rr that by (simp add: Let_def)
  have g: "fst (render env props) = Inl e"
    if "isBrowser env"
      and "i18nextLocize env (field pp ''lang'') (field pp ''defaultLocales'') = Inr i"
      and "initCustomerTheme env (field pp ''customer'') = Inr th"
      and "isRunningInIframe env = Inr fr" and "getIframeReferrer env = Inr rf"
      and "newUniversalCookiesManager env = Inr cm" and "getUserData env cm = Inl e"
    using rr that by (simp add: Let_def)
  have h: "\<exists>i th. i18nextLocize env (field pp ''lang'') (field pp ''defaultLocales'') = Inr i
                  \<and> initCustomerTheme env (field pp ''customer'') = Inr th
                  \<and> (isBrowser env \<longrightarrow>
                       (\<exists>fr rf cm us. isRunningInIframe env = Inr fr
                          \<and> getIframeReferrer env = Inr rf
                          \<and> newUniversalCookiesManager env = Inr cm
                          \<and> getUserData env cm = Inr us))"
    if "fst (render env props) = Inr r"
    using render_returns [OF assms(1) assms(2) that]
    by (cases "isBrowser env") auto
  from a b c d f g h show ?thesis by blast
qed

theorem failures_propagate_witness:
  "field sample_props ''pageProps'' = JObj sample_pageProps
   \<and> readyToRender (JObj sample_pageProps) = Inr True
   \<and> getUserData broken_session_env (JObj (fmap_of_list [(''cookies'', JStr ''jar'')]))
       = Inl (Thrown (JStr ''cookies disabled''))
   \<and> fst (render broken_session_env sample_props) = Inl (Thrown (JStr ''cookies disabled''))
   \<and> i18nextLocize broken_i18n_env (JStr ''fr'') (JObj fmempty)
       = Inl (Thrown (JStr ''locize unreachable''))
   \<and> fst (render broken_i18n_env sample_props) = Inl (Thrown (JStr ''locize unreachable''))"
proof -
  note w1 = failures_propagate [OF sample_gate(1) sample_gate(2),
      where env = broken_session_env
        and i = "JObj (fmap_of_list [(''language'', JStr ''fr''), (''store'', JObj fmempty)])"
        and th = "JObj (fmap_of_list [(''customer'', JStr ''customer1''), (''primaryColor'', JStr ''blue'')])"
        and fr = "JBool False" and rf = "JStr ''https://host.example''"
        and cm = "JObj (fmap_of_list [(''cookies'', JStr ''jar'')])"
        and e = "Thrown (JStr ''cookies disabled'')"]
  note w2 = failures_propagate [OF sample_gate(1) sample_gate(2),
      where env = broken_i18n_env and e = "Thrown (JStr ''locize unreachable'')"]
  have s: "fst (render broken_session_env sample_props) = Inl (Thrown (JStr ''cookies disabled''))"
    using w1 by (simp add: broken_session_env_def sample_env_def sample_fields)
  have t: "fst (render broken_i18n_env sample_props) = Inl (Thrown (JStr ''locize unreachable''))"
    using w2 by (simp add: broken_i18n_env_def sample_env_def sample_fields)
  from s t show ?thesis
    by (simp add: sample_gate broken_session_env_def broken_i18n_env_def sample_env_def)
qed

section \<open>Determinism\<close>

text \<open>
  Claim C10. The outcome of a render pass, that is the selected renderer, the delegated
  props, the thrown error and the trace, is a function of the props, of the browser flag
  and of what the collaborators answer to the calls the component makes: two environments
  that agree on these give the same outcome on equal props.
\<close>

theorem render_deterministic:
  assumes "isBrowser env = isBrowser env'"
    and "\<forall>pp. field props ''pageProps'' = JObj pp \<longrightarrow>
           i18nextLocize env (field pp ''lang'') (field pp ''defaultLocales'')
             = i18nextLocize env' (field pp ''lang'') (field pp ''defaultLocales'')
           \<and> initCustomerTheme env (field pp ''customer'')
             = initCustomerTheme env' (field pp ''customer'')"
    and "isRunningInIframe env = isRunningInIframe env'"
    and "getIframeReferrer env = getIframeReferrer env'"
    and "newUniversalCookiesManager env = newUniversalCookiesManager env'"
    and "\<forall>cm. newUniversalCookiesManager env = Inr cm \<longrightarrow>
           getUserData env cm = getUserData env' cm"
    and "props = props'"
  shows "render env props = render env' props'
       \<and> delegatedProps env props = delegatedProps env' props'"
proof -
  have "render env props = render env' props"
  proof (cases "readyToRender (field props ''pageProps'')")
    case (Inl e)
    with assms(1) show ?thesis by (simp add: render_gate_throws prologue_def)
  next
    case (Inr b)
    show ?thesis
    proof (cases b)
      case False
      with Inr assms(1) show ?thesis by (simp add: render_waiting prologue_def)
    next
      case True
      with Inr have t: "readyToRender (field props ''pageProps'') = Inr True" by simp
      then obtain pp where pp: "field props ''pageProps'' = JObj pp"
        using readyToRender_True_obj by blast
      from t pp have rdy: "readyToRender (JObj pp) = Inr True" by simp
      from assms(2) pp
      have r: "i18nextLocize env (field pp ''lang'') (field pp ''defaultLocales'')
                 = i18nextLocize env' (field pp ''lang'') (field pp ''defaultLocales'')"
              "initCustomerTheme env (field pp ''customer'')
                 = initCustomerTheme env' (field pp ''customer'')"
        by simp_all
      have u: "getUserData env cm = getUserData env' cm"
        if "newUniversalCookiesManager env' = Inr cm" for cm
        using assms(5) assms(6) that by simp
      show ?thesis
        unfolding render_ready [OF pp rdy, of env] render_ready [OF pp rdy, of env']
        using assms(1) assms(3) assms(4) assms(5) r u
        by (simp add: Let_def prologue_def cong: sum.case_cong split: sum.split)
    qed
  qed
  with assms(7) show ?thesis by (simp add: delegatedProps_def)
qed

theorem render_deterministic_witness:
  "isBrowser (sample_env True) = isBrowser quiet_env
   \<and> i18nextLocize (sample_env True) (JStr ''de'') JNull \<noteq> i18nextLocize quiet_env (JStr ''de'') JNull
   \<and> render (sample_env True) sample_props = render quiet_env sample_props"
proof -
  have a: "isBrowser (sample_env True) = isBrowser quiet_env"
    by (simp add: quiet_env_def sample_env_def)
  have b: "\<forall>pp. field sample_props ''pageProps'' = JObj pp \<longrightarrow>
           i18nextLocize (sample_env True) (field pp ''lang'') (field pp ''defaultLocales'')
             = i18nextLocize quiet_env (field pp ''lang'') (field pp ''defaultLocales'')
           \<and> initCustomerTheme (sample_env True) (field pp ''customer'')
             = initCustomerTheme quiet_env (field pp ''customer'')"
    by (simp add: sample_gate(1) sample_fields quiet_env_def sample_env_def)
  have c: "isRunningInIframe (sample_env True) = isRunningInIframe quiet_env"
          "getIframeReferrer (sample_env True) = getIframeReferrer quiet_env"
          "newUniversalCookiesManager (sample_env True) = newUniversalCookiesManager quiet_env"
          "\<forall>cm. newUniversalCookiesManager (sample_env True) = Inr cm \<longrightarrow>
             getUserData (sample_env True) cm = getUserData quiet_env cm"
    by (simp_all add: quiet_env_def sample_env_def)
  have d: "i18nextLocize (sample_env True) (JStr ''de'') JNull
             \<noteq> i18nextLocize quiet_env (JStr ''de'') JNull"
    by (simp add: quiet_env_def sample_env_def)
  from render_deterministic [OF a b c refl] a d show ?thesis by blast
qed

end
